theory Spec2Isabelle
  imports
    Complex_Main
    "HOL-Library.AList"
    "HOL-Library.Char_ord"
    "HOL-Library.List_Lexorder"
    "HOL-Library.Product_Lexorder"
begin

section \<open>The PSPLIB converter \<^verbatim>\<open>tools/psplib_to_proj.py\<close>\<close>

text \<open>
  The development embeds the four functions of \<^verbatim>\<open>psplib_to_proj.py\<close>:
  \<^verbatim>\<open>parse_psplib\<close>, \<^verbatim>\<open>convert_to_proj\<close>, \<^verbatim>\<open>parse_optimal_solutions\<close> and
  \<^verbatim>\<open>batch_convert\<close>.

  Conventions.
  \<^item> A Python \<^verbatim>\<open>str\<close> is a \<^typ>\<open>string\<close>; a \<^typ>\<open>char\<close> stands for the code point of the
    same number, so the model covers texts over the code points 0 to 255.
  \<^item> A Python \<^verbatim>\<open>int\<close> is an \<^typ>\<open>int\<close>.
  \<^item> A Python \<^verbatim>\<open>dict\<close> is an association list in insertion order whose keys are
    distinct; \<^verbatim>\<open>d[k] = v\<close> is \<^const>\<open>AList.update\<close>, which keeps the position of a key
    that is already present and appends a new one, as the dictionary does.
  \<^item> An exception is the \<^term>\<open>Inl\<close> side of a sum.
\<close>

subsection \<open>Exceptions\<close>

datatype error =
    ValueError string
  | ZeroDivisionError
  | KeyError
  | OSError string

text \<open>\<^verbatim>\<open>str(e)\<close>, as the warning of the batch run prints it.\<close>

fun error_message :: "error \<Rightarrow> string" where
  "error_message (ValueError s) = ''invalid literal for int() with base 10: '' @ [CHR 0x27] @ s @ [CHR 0x27]"
| "error_message ZeroDivisionError = ''division by zero''"
| "error_message KeyError = ''KeyError''"
| "error_message (OSError s) = s"

subsection \<open>Strings of the host language\<close>

text \<open>\<^verbatim>\<open>str.isspace\<close> on one character, which is also the class \<^verbatim>\<open>\s\<close> of a text pattern.\<close>

definition isspace :: "char \<Rightarrow> bool" where
  "isspace c \<longleftrightarrow> c \<in> set [CHR 0x20, CHR 0x0A, CHR 0x09, CHR 0x0D, CHR 0x0B, CHR 0x0C,
                           CHR 0x1C, CHR 0x1D, CHR 0x1E, CHR 0x1F, CHR 0x85, CHR 0xA0]"

text \<open>The decimal digits: the class \<^verbatim>\<open>\d\<close>, and the digits \<^verbatim>\<open>int\<close> accepts.\<close>

definition isdecimal :: "char \<Rightarrow> bool" where
  "isdecimal c \<longleftrightarrow> c \<in> set ''0123456789''"



text \<open>\<^verbatim>\<open>str.split()\<close> without a separator: the maximal runs of non-space characters.\<close>

function split_ws :: "string \<Rightarrow> string list" where
  "split_ws s =
     (case dropWhile isspace s of
        [] \<Rightarrow> []
      | c # cs \<Rightarrow> takeWhile (\<lambda>x. \<not> isspace x) (c # cs)
                 # split_ws (dropWhile (\<lambda>x. \<not> isspace x) cs))"
  by pat_completeness auto
termination
proof (relation "measure length")
  show "wf (measure length)" by simp
next
  fix s :: string and c cs
  assume a: "dropWhile isspace s = c # cs"
  have "length (dropWhile (\<lambda>x. \<not> isspace x) cs) \<le> length cs"
    by (rule length_dropWhile_le)
  moreover have "length (c # cs) \<le> length s"
    using length_dropWhile_le [of isspace s] a by simp
  ultimately show "(dropWhile (\<lambda>x. \<not> isspace x) cs, s) \<in> measure length"
    by simp
qed

declare split_ws.simps [simp del]


text \<open>\<^verbatim>\<open>str.strip()\<close>.\<close>

definition strip :: "string \<Rightarrow> string" where
  "strip s = rev (dropWhile isspace (rev (dropWhile isspace s)))"

text \<open>\<^verbatim>\<open>sep.join(xs)\<close>.\<close>

fun join :: "string \<Rightarrow> string list \<Rightarrow> string" where
  "join sep [] = []"
| "join sep [x] = x"
| "join sep (x # y # ys) = x @ sep @ join sep (y # ys)"

text \<open>\<^verbatim>\<open>str.lower()\<close>: the letters A to Z and the capital letters of Latin-1.\<close>

definition lower_char :: "char \<Rightarrow> char" where
  "lower_char c =
     (let n = (of_char c :: nat)
      in if (65 \<le> n \<and> n \<le> 90) \<or> (192 \<le> n \<and> n \<le> 222 \<and> n \<noteq> 215)
         then char_of (n + 32) else c)"

definition lower :: "string \<Rightarrow> string" where
  "lower s = map lower_char s"

text \<open>\<^verbatim>\<open>str(n)\<close> for an integer, as an f-string formats it.\<close>

definition digit_char :: "nat \<Rightarrow> char" where
  "digit_char d = ''0123456789'' ! d"

fun str_nat :: "nat \<Rightarrow> string" where
  "str_nat n = (if n < 10 then [digit_char n]
                else str_nat (n div 10) @ [digit_char (n mod 10)])"

declare str_nat.simps [simp del]

definition str_int :: "int \<Rightarrow> string" where
  "str_int i = (if i < 0 then CHR ''-'' # str_nat (nat (- i)) else str_nat (nat i))"

text \<open>
  \<^verbatim>\<open>int(s)\<close> in base 10: surrounding white space is dropped, one sign is allowed, and
  single underscores may separate digits. Anything else raises \<^verbatim>\<open>ValueError\<close>.
  (The interpreter's limit on the length of a digit string is not modelled.)
\<close>

definition digit_val :: "char \<Rightarrow> int" where
  "digit_val c = int (of_char c) - 48"

fun int_digits :: "int \<Rightarrow> string \<Rightarrow> int option" where
  "int_digits acc [] = Some acc"
| "int_digits acc [c] = (if isdecimal c then Some (acc * 10 + digit_val c) else None)"
| "int_digits acc (c # d # cs) =
     (if isdecimal c then
        (if d = CHR ''_'' then
           (case cs of [] \<Rightarrow> None
            | e # es \<Rightarrow> if isdecimal e then int_digits (acc * 10 + digit_val c) cs else None)
         else int_digits (acc * 10 + digit_val c) (d # cs))
      else None)"

definition int_unsigned :: "string \<Rightarrow> int option" where
  "int_unsigned s = (if s = [] then None else int_digits 0 s)"

definition py_int :: "string \<Rightarrow> error + int" where
  "py_int s =
     (case (case strip s of
              c # cs \<Rightarrow> if c = CHR ''-'' then map_option uminus (int_unsigned cs)
                        else if c = CHR ''+'' then int_unsigned cs
                        else int_unsigned (c # cs)
            | [] \<Rightarrow> None) of
        None \<Rightarrow> Inl (ValueError s)
      | Some v \<Rightarrow> Inr v)"


text \<open>\<^verbatim>\<open>d.get(k, default)\<close>.\<close>

definition dict_get :: "('k \<times> 'v) list \<Rightarrow> 'k \<Rightarrow> 'v \<Rightarrow> 'v" where
  "dict_get d k dflt = (case map_of d k of None \<Rightarrow> dflt | Some v \<Rightarrow> v)"

text \<open>
  \<^verbatim>\<open>round(n / c)\<close> for integers: true division, then rounding to the nearest integer
  with ties going to the even neighbour. Division by zero raises. The quotient is taken
  exactly; the floating-point quotient rounds to the same integer whenever
  \<open>\<bar>n\<bar> < 2 ^ 52\<close>, since then a quotient that is not a tie is at least \<open>1 / (2 * \<bar>c\<bar>)\<close>
  away from one, more than the error of the division.
\<close>

definition py_round_div :: "int \<Rightarrow> int \<Rightarrow> error + int" where
  "py_round_div n c =
     (if c = 0 then Inl ZeroDivisionError
      else let q = n div c; r = n mod c
           in if 2 * \<bar>r\<bar> < \<bar>c\<bar> then Inr q
              else if 2 * \<bar>r\<bar> > \<bar>c\<bar> then Inr (q + 1)
              else if even q then Inr q else Inr (q + 1))"

subsection \<open>The instance\<close>

record PSPLIBInstance =
  name :: string
  jobs :: int
  resources :: int
  horizon :: int
  precedence :: "(int \<times> int list) list"
  durations :: "(int \<times> int) list"
  demands :: "(int \<times> (string \<times> int) list) list"
  capacities :: "(string \<times> int) list"

text \<open>The association lists of an instance are dictionaries: no key occurs twice.\<close>

definition is_dict :: "('k \<times> 'v) list \<Rightarrow> bool" where
  "is_dict d \<longleftrightarrow> distinct (map fst d)"

definition wf_instance :: "PSPLIBInstance \<Rightarrow> bool" where
  "wf_instance inst \<longleftrightarrow>
     is_dict (precedence inst) \<and> is_dict (durations inst) \<and> is_dict (demands inst) \<and>
     is_dict (capacities inst) \<and> list_all (\<lambda>(j, d). is_dict d) (demands inst)"

subsection \<open>Text patterns\<close>

text \<open>
  The patterns of the source use literals, the classes \<^verbatim>\<open>\s\<close>, \<^verbatim>\<open>\d\<close> and \<^verbatim>\<open>.\<close>,
  sequence, alternation, greedy and lazy repetition, the anchor \<^verbatim>\<open>$\<close> and groups.
  \<open>AnyChar\<close> is the dot under \<^verbatim>\<open>re.DOTALL\<close>, \<open>NotNewline\<close> the plain dot.
\<close>

datatype cls = Chr char | Space | Digit | AnyChar | NotNewline

datatype rx = Atom cls | Eps | EndAnchor | Seq rx rx | Alt rx rx | Star bool rx

fun cls_match :: "cls \<Rightarrow> char \<Rightarrow> bool" where
  "cls_match (Chr c) x = (x = c)"
| "cls_match Space x = isspace x"
| "cls_match Digit x = isdecimal x"
| "cls_match AnyChar x = True"
| "cls_match NotNewline x = (x \<noteq> CHR 0x0A)"

text \<open>
  The backtracking matcher. \<open>mk r s k\<close> matches \<open>r\<close> at the start of \<open>s\<close> and hands
  what is left of \<open>s\<close> to the continuation \<open>k\<close>; when \<open>k\<close> fails it tries the next way
  of matching \<open>r\<close>, in the order of the engine: the left alternative first, a greedy
  repetition with one more round first, a lazy one with one more round last. The flag
  of \<open>Star\<close> is true for a greedy repetition. Every repeated pattern of the source
  consumes a character in each round, so a repetition makes at most as many rounds as
  characters are left; \<open>stark\<close> counts them down.
\<close>

fun mk :: "rx \<Rightarrow> string \<Rightarrow> (string \<Rightarrow> 'a option) \<Rightarrow> 'a option"
  and stark :: "nat \<Rightarrow> bool \<Rightarrow> rx \<Rightarrow> string \<Rightarrow> (string \<Rightarrow> 'a option) \<Rightarrow> 'a option" where
  "mk (Atom c) s k = (case s of [] \<Rightarrow> None | x # xs \<Rightarrow> if cls_match c x then k xs else None)"
| "mk Eps s k = k s"
| "mk EndAnchor s k = (if s = [] \<or> s = [CHR 0x0A] then k s else None)"
| "mk (Seq a b) s k = mk a s (\<lambda>s'. mk b s' k)"
| "mk (Alt a b) s k = (case mk a s k of Some r \<Rightarrow> Some r | None \<Rightarrow> mk b s k)"
| "mk (Star g a) s k = stark (length s) g a s k"
| "stark 0 g a s k = k s"
| "stark (Suc n) g a s k =
     (if g then (case mk a s (\<lambda>s'. stark n g a s' k) of Some r \<Rightarrow> Some r | None \<Rightarrow> k s)
      else (case k s of Some r \<Rightarrow> Some r | None \<Rightarrow> mk a s (\<lambda>s'. stark n g a s' k)))"

text \<open>Literals, \<^verbatim>\<open>r+\<close> and \<^verbatim>\<open>r{n,}\<close>, and the sequence of a list of patterns.\<close>

definition lit :: "string \<Rightarrow> rx" where
  "lit s = foldr (\<lambda>c r. Seq (Atom (Chr c)) r) s Eps"

definition plus :: "bool \<Rightarrow> rx \<Rightarrow> rx" where
  "plus g r = Seq r (Star g r)"


definition seqs :: "rx list \<Rightarrow> rx" where
  "seqs rs = foldr Seq rs Eps"

text \<open>
  A pattern with one group: what stands before the group, the group, what stands
  after it. \<open>match_at\<close> is the first successful way of matching at the start of the
  text, and gives the text of the group; \<open>search\<close> is \<^verbatim>\<open>re.search\<close>, which tries
  every start from the left, and \<^verbatim>\<open>group(1)\<close> of its result.
\<close>

type_synonym pattern = "rx \<times> rx \<times> rx"

definition match_at :: "pattern \<Rightarrow> string \<Rightarrow> string option" where
  "match_at p s =
     (case p of (pre, grp, post) \<Rightarrow>
        mk pre s (\<lambda>s1. mk grp s1 (\<lambda>s2. mk post s2
          (\<lambda>s3. Some (take (length s1 - length s2) s1)))))"

fun search :: "pattern \<Rightarrow> string \<Rightarrow> string option" where
  "search p [] = match_at p []"
| "search p (c # cs) =
     (case match_at p (c # cs) of Some g \<Rightarrow> Some g | None \<Rightarrow> search p cs)"






definition cap_rx :: pattern where
  "cap_rx = (seqs [lit ''RESOURCEAVAILABILITIES:'', Star True (Atom Space),
                   Atom (Chr (CHR 0x0A)), Star True (Atom Space), lit ''R'',
                   plus True (Atom Space), Atom Digit, Star True (Atom NotNewline),
                   Atom (Chr (CHR 0x0A)), Star True (Atom Space)],
             Seq (plus True (Atom Digit))
                 (Star True (Seq (plus True (Atom Space)) (plus True (Atom Digit)))),
             Eps)"

subsection \<open>The parser \<^verbatim>\<open>parse_psplib\<close>\<close>













subsection \<open>The translator \<^verbatim>\<open>convert_to_proj\<close>\<close>

definition makespan_comment :: "int \<Rightarrow> string" where
  "makespan_comment m = ''# Optimal Makespan: '' @ str_int m @ '' days''"

text \<open>The header: \<^verbatim>\<open>if optimal_makespan:\<close> is false for \<^verbatim>\<open>None\<close> and for \<^verbatim>\<open>0\<close>.\<close>

definition header_lines :: "PSPLIBInstance \<Rightarrow> int option \<Rightarrow> string list" where
  "header_lines inst optimal_makespan =
     [''# PSPLIB Instance: '' @ name inst,
      ''# Jobs: '' @ str_int (jobs inst) @ '', Resources: '' @ str_int (resources inst)]
     @ (case optimal_makespan of
          None \<Rightarrow> []
        | Some m \<Rightarrow> if m \<noteq> 0 then [makespan_comment m] else [])
     @ [''# Source: https://www.om-db.wi.tum.de/psplib/'', '''']"

definition project_lines :: "PSPLIBInstance \<Rightarrow> string list" where
  "project_lines inst =
     [''project '' @ [CHR 0x22] @ name inst @ [CHR 0x22] @ '' {'',
      ''    start: 2026-01-05'',
      ''    calendar: continuous'',
      ''}'',
      '''',
      ''calendar '' @ [CHR 0x22] @ ''continuous'' @ [CHR 0x22] @ '' {'',
      ''    working_days: mon, tue, wed, thu, fri, sat, sun'',
      ''}'',
      '''']"

definition resource_block :: "string \<times> int \<Rightarrow> string list" where
  "resource_block rc =
     (case rc of (res_id, capacity) \<Rightarrow>
       [''resource '' @ lower res_id @ '' '' @ [CHR 0x22] @ res_id @ [CHR 0x22] @ '' {'',
        ''    rate: 100/day'',
        ''    # PSPLIB capacity: '' @ str_int capacity @ '' units'',
        ''}''])"

definition resource_lines :: "PSPLIBInstance \<Rightarrow> string list" where
  "resource_lines inst = concat (map resource_block (sort (capacities inst))) @ ['''']"

text \<open>
  \<^verbatim>\<open>sorted([j for j in durations.keys() if durations[j] > 0])\<close>. The lookup is of a
  key of the dictionary, so it never raises.
\<close>

definition real_jobs :: "PSPLIBInstance \<Rightarrow> int list" where
  "real_jobs inst =
     sort (filter (\<lambda>j. case map_of (durations inst) j of Some d \<Rightarrow> d > 0 | None \<Rightarrow> False)
             (map fst (durations inst)))"

text \<open>The jobs that have \<open>job_id\<close> as a successor and a positive duration.\<close>

definition predecessors :: "PSPLIBInstance \<Rightarrow> int \<Rightarrow> int list" where
  "predecessors inst job_id =
     map fst (filter (\<lambda>(pred_id, succ_list).
                 job_id \<in> set succ_list \<and> dict_get (durations inst) pred_id 0 > 0)
              (precedence inst))"

text \<open>The loop over the sorted demands of one job; it raises when a capacity is zero.\<close>

fun assignments :: "(string \<times> int) list \<Rightarrow> (string \<times> int) list \<Rightarrow> error + string list" where
  "assignments caps [] = Inr []"
| "assignments caps ((res_id, demand) # rest) =
     (if demand > 0 then
        (case py_round_div (demand * 100) (dict_get caps res_id 10) of
           Inl e \<Rightarrow> Inl e
         | Inr pct \<Rightarrow>
            (case assignments caps rest of
               Inl e \<Rightarrow> Inl e
             | Inr xs \<Rightarrow> Inr ((lower res_id @ ''@'' @ str_int pct @ ''%'') # xs)))
      else assignments caps rest)"

definition job_ref :: "int \<Rightarrow> string" where
  "job_ref p = ''j'' @ str_int p"

definition depends_lines :: "PSPLIBInstance \<Rightarrow> int \<Rightarrow> string list" where
  "depends_lines inst job_id =
     (let preds = predecessors inst job_id
      in if preds \<noteq> [] then [''    depends: '' @ join '', '' (map job_ref (sort preds))]
         else [])"

definition assign_lines :: "string list \<Rightarrow> string list" where
  "assign_lines asg = (if asg \<noteq> [] then [''    assign: '' @ join '', '' asg] else [])"

definition task_header :: "int \<Rightarrow> string" where
  "task_header job_id =
     ''task j'' @ str_int job_id @ '' '' @ [CHR 0x22] @ ''Job '' @ str_int job_id
       @ [CHR 0x22] @ '' {''"

text \<open>
  One pass of the loop over the real jobs. \<^verbatim>\<open>instance.durations[job_id]\<close> raises
  \<^verbatim>\<open>KeyError\<close> for a missing key; the loop only passes keys.
\<close>

definition task_block :: "PSPLIBInstance \<Rightarrow> int \<Rightarrow> error + string list" where
  "task_block inst job_id =
     (case map_of (durations inst) job_id of
        None \<Rightarrow> Inl KeyError
      | Some duration \<Rightarrow>
         (case assignments (capacities inst) (sort (dict_get (demands inst) job_id [])) of
            Inl e \<Rightarrow> Inl e
          | Inr asg \<Rightarrow>
             Inr ([task_header job_id,
                   ''    duration: '' @ str_int duration @ ''d'']
                  @ assign_lines asg
                  @ depends_lines inst job_id
                  @ [''}''])))"

text \<open>The loop over the real jobs: the first exception ends it.\<close>

fun task_blocks :: "PSPLIBInstance \<Rightarrow> int list \<Rightarrow> error + string list list" where
  "task_blocks inst [] = Inr []"
| "task_blocks inst (job_id # rest) =
     (case task_block inst job_id of
        Inl e \<Rightarrow> Inl e
      | Inr b \<Rightarrow> (case task_blocks inst rest of Inl e \<Rightarrow> Inl e | Inr bs \<Rightarrow> Inr (b # bs)))"

text \<open>The list \<^verbatim>\<open>lines\<close> when the function returns, and the text it is joined to.\<close>

definition proj_lines :: "PSPLIBInstance \<Rightarrow> int option \<Rightarrow> error + string list" where
  "proj_lines inst optimal_makespan =
     (case task_blocks inst (real_jobs inst) of
        Inl e \<Rightarrow> Inl e
      | Inr bs \<Rightarrow>
         Inr (header_lines inst optimal_makespan @ project_lines inst @ resource_lines inst
              @ concat bs @ ['''']))"

definition convert_to_proj :: "PSPLIBInstance \<Rightarrow> int option \<Rightarrow> error + string" where
  "convert_to_proj inst optimal_makespan =
     (case proj_lines inst optimal_makespan of
        Inl e \<Rightarrow> Inl e
      | Inr ls \<Rightarrow> Inr (join [CHR 0x0A] ls))"

subsection \<open>The loader \<^verbatim>\<open>parse_optimal_solutions\<close>\<close>





subsection \<open>Notions of the specification\<close>


text \<open>
  The declared predecessors of a job as the specification has them: the jobs \<open>P\<close> with
  \<open>J\<close> among the successors of \<open>P\<close> and a positive duration.
\<close>

definition pred_set :: "PSPLIBInstance \<Rightarrow> int \<Rightarrow> int set" where
  "pred_set inst J =
     {P. \<exists>succs d. map_of (precedence inst) P = Some succs \<and> J \<in> set succs \<and>
                   map_of (durations inst) P = Some d \<and> d > 0}"

subsection \<open>Example inputs\<close>

text \<open>The end-to-end scenario: four jobs, one resource of capacity 10.\<close>

definition example_instance :: PSPLIBInstance where
  "example_instance =
     \<lparr>name = ''t'', jobs = 4, resources = 1, horizon = 100,
      precedence = [(1, [2, 3]), (2, [4]), (3, [4]), (4, [])],
      durations = [(1, 0), (2, 5), (3, 5), (4, 0)],
      demands = [(1, []), (2, [(''R1'', 5)]), (3, []), (4, [])],
      capacities = [(''R1'', 10)]\<rparr>"




text \<open>
  A second instance: job 4 has the real jobs 3 and 2 as predecessors, entered in that
  order, the sentinel 1 is a predecessor of 2 and 3, and job 3 uses two resources.
\<close>

definition example_chain :: PSPLIBInstance where
  "example_chain =
     \<lparr>name = ''c'', jobs = 4, resources = 1, horizon = 100,
      precedence = [(3, [4]), (1, [2, 3]), (2, [4]), (4, [])],
      durations = [(1, 0), (2, 5), (3, 5), (4, 2)],
      demands = [(1, []), (2, [(''R1'', 1)]), (3, [(''R2'', 3), (''R1'', 2)]), (4, [])],
      capacities = [(''R2'', 4), (''R1'', 8)]\<rparr>"





text \<open>
  Equality of dictionaries, as \<^verbatim>\<open>==\<close> decides it: the same keys with equal values,
  whatever the order of insertion. For the demands the values are dictionaries again.
\<close>

definition dict_equal :: "('k \<times> 'v) list \<Rightarrow> ('k \<times> 'v) list \<Rightarrow> bool" where
  "dict_equal a b \<longleftrightarrow> set a = set b"

definition demands_equal ::
  "(int \<times> (string \<times> int) list) list \<Rightarrow> (int \<times> (string \<times> int) list) list \<Rightarrow> bool" where
  "demands_equal a b \<longleftrightarrow>
     set (map fst a) = set (map fst b) \<and>
     list_all (\<lambda>j. dict_equal (dict_get a j []) (dict_get b j [])) (map fst a)"

definition instance_equal :: "PSPLIBInstance \<Rightarrow> PSPLIBInstance \<Rightarrow> bool" where
  "instance_equal a b \<longleftrightarrow>
     name a = name b \<and> jobs a = jobs b \<and> resources a = resources b \<and>
     horizon a = horizon b \<and>
     dict_equal (precedence a) (precedence b) \<and>
     dict_equal (durations a) (durations b) \<and>
     demands_equal (demands a) (demands b) \<and>
     dict_equal (capacities a) (capacities b)"

text \<open>The example instance with every dictionary filled in another order.\<close>

definition example_permuted :: PSPLIBInstance where
  "example_permuted =
     \<lparr>name = ''c'', jobs = 4, resources = 1, horizon = 100,
      precedence = [(4, []), (2, [4]), (1, [2, 3]), (3, [4])],
      durations = [(4, 2), (3, 5), (2, 5), (1, 0)],
      demands = [(3, [(''R1'', 2), (''R2'', 3)]), (2, [(''R1'', 1)]), (4, []), (1, [])],
      capacities = [(''R1'', 8), (''R2'', 4)]\<rparr>"
















text \<open>Two resources declared and demanded, one capacity supplied.\<close>

definition file_few_capacities :: string where
  "file_few_capacities =
     ''renewable : 2'' @ [CHR 0x0A] @
     ''REQUESTS/DURATIONS:'' @ [CHR 0x0A] @ ''-----'' @ [CHR 0x0A] @
     ''1 1 3 1 1'' @ [CHR 0x0A] @ ''*****'' @ [CHR 0x0A] @
     ''RESOURCEAVAILABILITIES:'' @ [CHR 0x0A] @ '' R 1 R 2'' @ [CHR 0x0A] @
     '' 5'' @ [CHR 0x0A]"


text \<open>
  The invariant of the data model: every resource label in the demands of a job is a
  key of the capacities.
\<close>

definition demands_declared :: "PSPLIBInstance \<Rightarrow> bool" where
  "demands_declared inst \<longleftrightarrow>
     list_all (\<lambda>(j, d). list_all (\<lambda>(l, v). l \<in> set (map fst (capacities inst))) d)
       (demands inst)"

text \<open>
  The availabilities of a text supply enough capacities for \<open>n\<close> resources: the section
  is absent, so that the defaults are used, or its line has at least \<open>n\<close> numbers.
\<close>

definition capacities_supplied :: "string \<Rightarrow> int \<Rightarrow> bool" where
  "capacities_supplied content n \<longleftrightarrow>
     (case search cap_rx content of
        None \<Rightarrow> True
      | Some g \<Rightarrow> nat n \<le> length (split_ws (strip g)))"

text \<open>What the parser makes of the file with one capacity for two resources.\<close>

definition few_instance :: PSPLIBInstance where
  "few_instance =
     \<lparr>name = ''f'', jobs = 0, resources = 2, horizon = 100,
      precedence = [],
      durations = [(1, 3)],
      demands = [(1, [(''R1'', 1), (''R2'', 1)])],
      capacities = [(''R1'', 5)]\<rparr>"

section \<open>Properties\<close>

subsection \<open>The example evaluates\<close>

lemma example_is_wf: "wf_instance example_instance"
  by (simp add: wf_instance_def is_dict_def example_instance_def)


subsection \<open>Order of the task blocks\<close>

lemma task_blocks_all2:
  "task_blocks inst js = Inr bs \<Longrightarrow> list_all2 (\<lambda>j b. task_block inst j = Inr b) js bs"
  by (induction js arbitrary: bs) (auto split: sum.splits)














subsection \<open>The dependencies of a task\<close>

lemma set_predecessors:
  assumes "is_dict (precedence inst)"
  shows "set (predecessors inst J) = pred_set inst J"
proof -
  have d: "distinct (map fst (precedence inst))"
    using assms by (simp add: is_dict_def)
  have pos: "(dict_get (durations inst) P 0 > 0) = (\<exists>d. map_of (durations inst) P = Some d \<and> d > 0)"
    for P
    by (simp add: dict_get_def split: option.splits)
  have "P \<in> set (predecessors inst J) \<longleftrightarrow> P \<in> pred_set inst J" for P
  proof
    assume "P \<in> set (predecessors inst J)"
    then obtain succs where "(P, succs) \<in> set (precedence inst)" "J \<in> set succs"
      "dict_get (durations inst) P 0 > 0"
      by (auto simp: predecessors_def)
    then show "P \<in> pred_set inst J"
      using d pos by (auto simp: pred_set_def)
  next
    assume "P \<in> pred_set inst J"
    then obtain succs where s: "map_of (precedence inst) P = Some succs" "J \<in> set succs"
      "dict_get (durations inst) P 0 > 0"
      using pos by (auto simp: pred_set_def)
    have "(P, succs) \<in> set (precedence inst)"
      using s(1) by (rule map_of_SomeD)
    then show "P \<in> set (predecessors inst J)"
      using s(2,3) by (force simp: predecessors_def)
  qed
  then show ?thesis by blast
qed

lemma distinct_predecessors:
  "is_dict (precedence inst) \<Longrightarrow> distinct (predecessors inst J)"
  by (simp add: predecessors_def is_dict_def distinct_map_filter)





subsection \<open>The comment on the optimal makespan\<close>











subsection \<open>The percentages of an assignment\<close>











subsection \<open>Independence of the insertion order\<close>

lemma sort_dict_equal:
  fixes a b :: "('k :: linorder) list"
  assumes "distinct a" and "distinct b" and "set a = set b"
  shows "sort a = sort b"
  using assms by (intro sorted_distinct_set_unique) simp_all

lemma is_dict_distinct: "is_dict d \<Longrightarrow> distinct d"
  by (simp add: is_dict_def distinct_map)

lemma dict_equal_map_of:
  assumes "is_dict a" and "is_dict b" and "dict_equal a b"
  shows "map_of a = map_of b"
  using assms map_of_inject_set [of a b] by (simp add: is_dict_def dict_equal_def)

lemma dict_equal_get:
  assumes "is_dict a" and "is_dict b" and "dict_equal a b"
  shows "dict_get a k v = dict_get b k v"
  by (simp add: dict_get_def dict_equal_map_of [OF assms])

lemma dict_equal_keys:
  "dict_equal a b \<Longrightarrow> set (map fst a) = set (map fst b)"
  by (simp add: dict_equal_def)

lemma assignments_caps:
  assumes "map_of c1 = map_of c2"
  shows "assignments c1 ds = assignments c2 ds"
  by (induction ds) (auto simp: dict_get_def assms split: sum.splits)

lemma real_jobs_equal:
  assumes "is_dict a" and "is_dict b" and "dict_equal a b"
    and a: "durations i1 = a" and b: "durations i2 = b"
  shows "real_jobs i1 = real_jobs i2"
proof -
  have m: "map_of a = map_of b" using assms(1-3) by (rule dict_equal_map_of)
  let ?P = "\<lambda>j. case map_of b j of Some d \<Rightarrow> d > 0 | None \<Rightarrow> False"
  have "set (filter ?P (map fst a)) = set (filter ?P (map fst b))"
    using dict_equal_keys [OF assms(3)] by auto
  moreover have "distinct (filter ?P (map fst a))" "distinct (filter ?P (map fst b))"
    using assms(1,2) by (simp_all add: is_dict_def)
  ultimately have "sort (filter ?P (map fst a)) = sort (filter ?P (map fst b))"
    by (intro sort_dict_equal)
  then show ?thesis by (simp add: real_jobs_def a b m)
qed

lemma predecessors_equal:
  assumes "wf_instance i1" and "wf_instance i2" and "instance_equal i1 i2"
  shows "sort (predecessors i1 J) = sort (predecessors i2 J)"
proof -
  have p: "map_of (precedence i1) = map_of (precedence i2)"
    and d: "map_of (durations i1) = map_of (durations i2)"
    using assms by (auto simp: wf_instance_def instance_equal_def intro: dict_equal_map_of)
  have 1: "is_dict (precedence i1)" and 2: "is_dict (precedence i2)"
    using assms by (simp_all add: wf_instance_def)
  have "pred_set i1 J = pred_set i2 J"
    by (simp add: pred_set_def p d)
  then have "set (predecessors i1 J) = set (predecessors i2 J)"
    using set_predecessors [OF 1] set_predecessors [OF 2] by simp
  then show ?thesis
    using distinct_predecessors [OF 1] distinct_predecessors [OF 2]
    by (intro sort_dict_equal)
qed

lemma depends_lines_equal:
  assumes "wf_instance i1" and "wf_instance i2" and "instance_equal i1 i2"
  shows "depends_lines i1 J = depends_lines i2 J"
proof -
  have s: "sort (predecessors i1 J) = sort (predecessors i2 J)"
    using assms by (rule predecessors_equal)
  have "(predecessors i1 J = []) = (predecessors i2 J = [])"
    by (metis s set_sort set_empty)
  then show ?thesis by (simp add: depends_lines_def Let_def s)
qed

lemma wf_demands_value:
  assumes "wf_instance i"
  shows "is_dict (dict_get (demands i) J [])"
proof (cases "map_of (demands i) J")
  case None
  then show ?thesis by (simp add: dict_get_def is_dict_def)
next
  case (Some v)
  then have "(J, v) \<in> set (demands i)" by (rule map_of_SomeD)
  then show ?thesis
    using assms Some by (auto simp: wf_instance_def list_all_iff dict_get_def)
qed

lemma demands_sorted_equal:
  assumes "wf_instance i1" and "wf_instance i2" and "instance_equal i1 i2"
  shows "sort (dict_get (demands i1) J []) = sort (dict_get (demands i2) J [])"
proof -
  have de: "demands_equal (demands i1) (demands i2)"
    using assms(3) by (simp add: instance_equal_def)
  have "set (dict_get (demands i1) J []) = set (dict_get (demands i2) J [])"
  proof (cases "J \<in> set (map fst (demands i1))")
    case True
    moreover have "\<forall>j \<in> set (map fst (demands i1)).
        set (dict_get (demands i1) j []) = set (dict_get (demands i2) j [])"
      using de unfolding demands_equal_def list_all_iff dict_equal_def by blast
    ultimately show ?thesis by blast
  next
    case False
    moreover from False de have "J \<notin> set (map fst (demands i2))"
      by (simp add: demands_equal_def)
    ultimately have "map_of (demands i1) J = None" "map_of (demands i2) J = None"
      by (simp_all add: map_of_eq_None_iff)
    then show ?thesis by (simp add: dict_get_def)
  qed
  then show ?thesis
    using is_dict_distinct [OF wf_demands_value [OF assms(1)]]
      is_dict_distinct [OF wf_demands_value [OF assms(2)]]
    by (intro sort_dict_equal)
qed

lemma task_block_equal:
  assumes "wf_instance i1" and "wf_instance i2" and "instance_equal i1 i2"
  shows "task_block i1 J = task_block i2 J"
proof -
  have d: "map_of (durations i1) = map_of (durations i2)"
    and c: "map_of (capacities i1) = map_of (capacities i2)"
    using assms by (auto simp: wf_instance_def instance_equal_def intro: dict_equal_map_of)
  show ?thesis
    by (simp add: task_block_def d assignments_caps [OF c]
        demands_sorted_equal [OF assms] depends_lines_equal [OF assms]
        split: option.splits sum.splits)
qed

lemma task_blocks_equal:
  assumes "wf_instance i1" and "wf_instance i2" and "instance_equal i1 i2"
  shows "task_blocks i1 js = task_blocks i2 js"
  by (induction js) (simp_all add: task_block_equal [OF assms] split: sum.splits)

text \<open>
  C9. The translator is a function of the instance, and its result does not depend on
  the order in which the dictionaries of the instance were filled: two instances that
  are equal as \<^verbatim>\<open>==\<close> decides it yield the same result, the same text or the same
  exception.
\<close>

theorem render_insertion_order_independent:
  assumes "wf_instance i1" and "wf_instance i2" and "instance_equal i1 i2"
  shows "convert_to_proj i1 m = convert_to_proj i2 m"
proof -
  have f: "name i1 = name i2" "jobs i1 = jobs i2" "resources i1 = resources i2"
    using assms(3) by (simp_all add: instance_equal_def)
  have h: "header_lines i1 m = header_lines i2 m"
    by (simp add: header_lines_def f)
  have p: "project_lines i1 = project_lines i2"
    by (simp add: project_lines_def f)
  have "sort (capacities i1) = sort (capacities i2)"
    using assms by (intro sort_dict_equal)
      (auto simp: wf_instance_def instance_equal_def dict_equal_def intro: is_dict_distinct)
  then have r: "resource_lines i1 = resource_lines i2"
    by (simp add: resource_lines_def)
  have j: "real_jobs i1 = real_jobs i2"
    using assms by (intro real_jobs_equal [OF _ _ _ refl refl])
      (simp_all add: wf_instance_def instance_equal_def)
  show ?thesis
    by (simp add: convert_to_proj_def proj_lines_def h p r j task_blocks_equal [OF assms]
        split: sum.splits)
qed


theorem render_insertion_order_independent_witness:
  "wf_instance example_chain \<and> wf_instance example_permuted \<and>
   instance_equal example_chain example_permuted \<and>
   precedence example_chain \<noteq> precedence example_permuted \<and>
   convert_to_proj example_chain (Some 7) = convert_to_proj example_permuted (Some 7)"
proof -
  have h1: "wf_instance example_chain"
    by (simp add: wf_instance_def is_dict_def example_chain_def)
  have h2: "wf_instance example_permuted"
    by (simp add: wf_instance_def is_dict_def example_permuted_def)
  have h3: "instance_equal example_chain example_permuted"
    by (simp add: instance_equal_def dict_equal_def demands_equal_def dict_get_def
        example_chain_def example_permuted_def insert_commute)
  have h4: "precedence example_chain \<noteq> precedence example_permuted"
    by (simp add: example_chain_def example_permuted_def)
  show ?thesis
    using h1 h2 h3 h4 render_insertion_order_independent [OF h1 h2 h3, of "Some 7"] by simp
qed

subsection \<open>The scan of the solutions table\<close>









subsection \<open>Digit strings are integers\<close>








subsection \<open>What a pattern consumes\<close>










subsection \<open>When the parser returns\<close>

lemma py_int_value_error: "py_int s = Inl e \<Longrightarrow> e = ValueError s"
  by (auto simp: py_int_def split: option.splits)
















subsection \<open>Which jobs become tasks\<close>

















end
